theory Spec2Isabelle
  imports Complex_Main "HOL-Library.Sublist"
begin

section \<open>The report dictionary of \<^verbatim>\<open>main.py\<close>\<close>

text \<open>
  \<^verbatim>\<open>SystemMonitor.collect_full_report\<close> builds one dictionary whose values are the
  dictionaries of the collectors. The scoring and greeting code reads them only through
  \<^verbatim>\<open>dict.get\<close>, so every key it reads is an optional field here: \<open>None\<close> is a key that
  is not in the dictionary. A collector that failed returns \<^verbatim>\<open>{"error": str(e)}\<close>: the
  \<open>error\<close> field is set and the data fields are absent.

  Python floats (\<^verbatim>\<open>percent_used\<close>, \<^verbatim>\<open>percent\<close>, \<^verbatim>\<open>health_percentage\<close>) are modelled by
  the rational number they denote: the code only compares them with integer constants,
  and Python compares a finite float with an integer exactly. Python integers are \<open>int\<close>.
  Keys that the modelled functions never read (\<^verbatim>\<open>used_gb\<close>, \<^verbatim>\<open>time_left\<close>,
  \<^verbatim>\<open>chemistry\<close>, ...) are left out.
\<close>

record info =
  error :: "string option"

record usage_info = info +
  percent_used :: "rat option"

record startup_info = info +
  uptime_days :: "int option"

record driver_info = info +
  available_updates :: "int option"

text \<open>
  The battery dictionary of \<^verbatim>\<open>get_battery_info\<close> is built with the key \<^verbatim>\<open>status\<close>
  (\<^verbatim>\<open>"critical"\<close> or \<^verbatim>\<open>"normal"\<close>, line 227), which is a field of every record here. So
  a record is never the empty dictionary \<^verbatim>\<open>{}\<close>, the one dictionary that Python takes
  for false, and the test \<^verbatim>\<open>if battery:\<close> is the test that the collector did not
  return \<^verbatim>\<open>None\<close>.
\<close>

record battery_info =
  status :: string
  percent :: "rat option"
  plugged :: "bool option"
  health_percentage :: "rat option"
  health_status :: "string option"
  cycle_count :: "int option"

record report =
  storage :: "usage_info option"
  memory :: "usage_info option"
  startup :: "startup_info option"
  autostart_programs :: "string list option"
  battery :: "battery_info option"
  drivers :: "driver_info option"
  health_score :: "int option"

text \<open>\<^verbatim>\<open>d.get(key, default)\<close> on an optional field.\<close>

definition dict_get :: "'a option \<Rightarrow> 'a \<Rightarrow> 'a" where
  "dict_get v d = (case v of None \<Rightarrow> d | Some x \<Rightarrow> x)"

text \<open>The empty dictionaries \<^verbatim>\<open>{}\<close> that \<^verbatim>\<open>report.get(key, {})\<close> falls back to.\<close>

definition empty_usage :: usage_info where
  "empty_usage = \<lparr>error = None, percent_used = None\<rparr>"

definition empty_startup :: startup_info where
  "empty_startup = \<lparr>error = None, uptime_days = None\<rparr>"

definition empty_drivers :: driver_info where
  "empty_drivers = \<lparr>error = None, available_updates = None\<rparr>"

text \<open>
  Truth values of Python: a number is true when it is neither \<^verbatim>\<open>None\<close> nor zero;
  \<^verbatim>\<open>not battery.get("plugged")\<close> holds when the key is absent or \<^verbatim>\<open>False\<close>. Where
  the code has tested \<^verbatim>\<open>if x:\<close> the value is present, and \<open>the x\<close> reads it.
\<close>

definition truthy :: "'a::zero option \<Rightarrow> bool" where
  "truthy v = (case v of None \<Rightarrow> False | Some x \<Rightarrow> x \<noteq> 0)"

definition not_plugged :: "battery_info \<Rightarrow> bool" where
  "not_plugged b = (plugged b \<noteq> Some True)"

section \<open>\<^verbatim>\<open>SystemMonitor.get_system_health_score\<close>\<close>

text \<open>
  The function starts from \<^verbatim>\<open>score = 100\<close> and runs five blocks, each of which
  lowers the running score; each block is one function from the score before it to the
  score after it (lines 503-507, 509-513, 515-534, 536-538, 540-544), and the last line
  is \<^verbatim>\<open>return max(0, score)\<close>.
\<close>

definition score_storage :: "report \<Rightarrow> int \<Rightarrow> int" where
  "score_storage r score =
     (let storage_d = dict_get (storage r) empty_usage in
      if dict_get (percent_used storage_d) 0 > 90 then score - 20
      else if dict_get (percent_used storage_d) 0 > 80 then score - 10
      else score)"

definition score_memory :: "report \<Rightarrow> int \<Rightarrow> int" where
  "score_memory r score =
     (let memory_d = dict_get (memory r) empty_usage in
      if dict_get (percent_used memory_d) 0 > 90 then score - 15
      else if dict_get (percent_used memory_d) 0 > 80 then score - 8
      else score)"

definition score_battery_charge :: "battery_info \<Rightarrow> int \<Rightarrow> int" where
  "score_battery_charge b score =
     (if dict_get (percent b) 100 < 20 \<and> not_plugged b then score - 10 else score)"

definition score_battery_health :: "battery_info \<Rightarrow> int \<Rightarrow> int" where
  "score_battery_health b score =
     (let hp = health_percentage b in
      if truthy hp then
        (if the hp < 50 then score - 25
         else if the hp < 70 then score - 15
         else if the hp < 80 then score - 8
         else score)
      else score)"

definition score_battery_cycles :: "battery_info \<Rightarrow> int \<Rightarrow> int" where
  "score_battery_cycles b score =
     (let cc = cycle_count b in
      if truthy cc then
        (if the cc > 1000 then score - 10
         else if the cc > 500 then score - 5
         else score)
      else score)"

definition score_battery :: "report \<Rightarrow> int \<Rightarrow> int" where
  "score_battery r score =
     (case battery r of
        None \<Rightarrow> score
      | Some b \<Rightarrow> score_battery_cycles b (score_battery_health b (score_battery_charge b score)))"

definition score_startup :: "report \<Rightarrow> int \<Rightarrow> int" where
  "score_startup r score =
     (let startup_d = dict_get (startup r) empty_startup in
      if dict_get (uptime_days startup_d) 0 > 30 then score - 5 else score)"

definition score_drivers :: "report \<Rightarrow> int \<Rightarrow> int" where
  "score_drivers r score =
     (let drivers_d = dict_get (drivers r) empty_drivers in
      if dict_get (available_updates drivers_d) 0 > 5 then score - 15
      else if dict_get (available_updates drivers_d) 0 > 0 then score - 5
      else score)"

definition get_system_health_score :: "report \<Rightarrow> int" where
  "get_system_health_score r =
     max 0 (score_drivers r (score_startup r (score_battery r (score_memory r (score_storage r 100)))))"

section \<open>Strings\<close>

text \<open>
  \<^verbatim>\<open>str(n)\<close> of a Python integer, which the f-strings apply to \<^verbatim>\<open>uptime_days\<close>,
  \<^verbatim>\<open>cycle_count\<close> and \<^verbatim>\<open>available_updates\<close>: decimal digits, with a minus sign for a
  negative number.
\<close>

definition digit_char :: "nat \<Rightarrow> char" where
  "digit_char d =
     (if d = 0 then CHR ''0'' else if d = 1 then CHR ''1'' else if d = 2 then CHR ''2''
      else if d = 3 then CHR ''3'' else if d = 4 then CHR ''4'' else if d = 5 then CHR ''5''
      else if d = 6 then CHR ''6'' else if d = 7 then CHR ''7'' else if d = 8 then CHR ''8''
      else CHR ''9'')"

fun str_nat :: "nat \<Rightarrow> string" where
  "str_nat n =
     (if n < 10 then [digit_char n] else str_nat (n div 10) @ [digit_char (n mod 10)])"

definition str_int :: "int \<Rightarrow> string" where
  "str_int i = (if i < 0 then CHR ''-'' # str_nat (nat (- i)) else str_nat (nat i))"

text \<open>\<^verbatim>\<open>sep.join(xs)\<close>.\<close>

fun join :: "string \<Rightarrow> string list \<Rightarrow> string" where
  "join sep [] = []"
| "join sep [x] = x"
| "join sep (x # y # ys) = x @ sep @ join sep (y # ys)"

section \<open>\<^verbatim>\<open>SmartGreeting.generate_greeting\<close>\<close>

text \<open>
  The method takes the report alone and reads the clock itself
  (\<^verbatim>\<open>current_time = datetime.now()\<close>, line 586). \<open>generate_greeting\<close> below is its body
  from line 587 on, as a function of the value \<open>current_time\<close> that line 586 stored, of
  which the code reads \<^verbatim>\<open>hour\<close> only; the method itself, with the read of the clock, is
  \<open>call_generate_greeting\<close> further down.
\<close>

record datetime =
  hour :: nat
  minute :: nat
  second :: nat

text \<open>
  Comparing \<^verbatim>\<open>None\<close> with a number raises \<^verbatim>\<open>TypeError\<close>; it is the one exception the
  modelled code can raise on a report of this type (line 629, when the battery dictionary
  has no \<^verbatim>\<open>percent\<close>).
\<close>

datatype py_error = TypeError

text \<open>Lines 589-596.\<close>

definition time_greeting :: "datetime \<Rightarrow> string" where
  "time_greeting current_time =
     (if 5 \<le> hour current_time \<and> hour current_time < 12 then ''Good morning!''
      else if 12 \<le> hour current_time \<and> hour current_time < 17 then ''Good afternoon!''
      else if 17 \<le> hour current_time \<and> hour current_time < 21 then ''Good evening!''
      else ''Hello!'')"

text \<open>Lines 600-609.\<close>

definition health_sentence :: "int \<Rightarrow> string" where
  "health_sentence score =
     (if score \<ge> 95 then ''Your system is running exceptionally well today! Everything looks perfect.''
      else if score \<ge> 85 then ''Your computer is performing great with excellent system health.''
      else if score \<ge> 70 then
        ''Your system is running well, though there might be room for minor improvements.''
      else if score \<ge> 50 then ''Your computer needs some attention to optimize performance.''
      else ''Your system requires immediate maintenance for better performance.'')"

text \<open>
  Lines 611-652 fill the two lists \<^verbatim>\<open>issues\<close> and \<^verbatim>\<open>suggestions\<close>. Each block of the
  code is a function from the pair of lists before it to the pair after it.
  The text Python prints for a float (\<^verbatim>\<open>{health_percentage}\<close> in an f-string) is a
  parameter \<open>fmt\<close> of the model.
\<close>

type_synonym found = "string list \<times> string list"

fun issues_storage :: "report \<Rightarrow> found \<Rightarrow> found" where
  "issues_storage r (issues, suggestions) =
     (let storage_d = dict_get (storage r) empty_usage in
      if dict_get (percent_used storage_d) 0 > 90 then
        (issues @ [''critically low disk space''], suggestions @ [''free up disk space immediately''])
      else if dict_get (percent_used storage_d) 0 > 80 then
        (issues @ [''limited disk space''], suggestions @ [''consider cleaning up files''])
      else (issues, suggestions))"

fun issues_memory :: "report \<Rightarrow> found \<Rightarrow> found" where
  "issues_memory r (issues, suggestions) =
     (let memory_d = dict_get (memory r) empty_usage in
      if dict_get (percent_used memory_d) 0 > 85 then
        (issues @ [''high memory usage''], suggestions @ [''close unused applications''])
      else (issues, suggestions))"

fun issues_uptime :: "report \<Rightarrow> found \<Rightarrow> found" where
  "issues_uptime r (issues, suggestions) =
     (let startup_d = dict_get (startup r) empty_startup in
      if dict_get (uptime_days startup_d) 0 > 14 then
        (issues @ [str_int (the (uptime_days startup_d)) @ '' days uptime''],
         suggestions @ [''restart your computer soon''])
      else (issues, suggestions))"

text \<open>
  Line 629: \<^verbatim>\<open>battery and battery.get("percent") < 20 and not battery.get("plugged")\<close>.
  There is no default for \<^verbatim>\<open>percent\<close> here, unlike in the score.
\<close>

fun issues_battery_charge :: "report \<Rightarrow> found \<Rightarrow> py_error + found" where
  "issues_battery_charge r (issues, suggestions) =
     (case battery r of
        None \<Rightarrow> Inr (issues, suggestions)
      | Some b \<Rightarrow>
          (case percent b of
             None \<Rightarrow> Inl TypeError
           | Some p \<Rightarrow>
               if p < 20 \<and> not_plugged b then
                 Inr (issues @ [''low battery''], suggestions @ [''connect your charger''])
               else Inr (issues, suggestions)))"

fun issues_battery_health :: "(rat \<Rightarrow> string) \<Rightarrow> battery_info \<Rightarrow> found \<Rightarrow> found" where
  "issues_battery_health fmt b (issues, suggestions) =
     (let hp = health_percentage b in
      if truthy hp \<and> the hp < 70 then
        (let hstatus = dict_get (health_status b) ''unknown'' in
         (issues @ [''battery health at '' @ fmt (the hp) @ ''% ('' @ hstatus @ '')''],
          suggestions @ [if the hp < 50 then ''consider battery replacement''
                         else ''monitor battery performance'']))
      else (issues, suggestions))"

fun issues_battery_cycles :: "battery_info \<Rightarrow> found \<Rightarrow> found" where
  "issues_battery_cycles b (issues, suggestions) =
     (let cc = cycle_count b in
      if truthy cc \<and> the cc > 800 then
        (issues @ [''high battery cycles ('' @ str_int (the cc) @ '')''],
         suggestions @ [''consider battery maintenance''])
      else (issues, suggestions))"

definition issues_battery :: "(rat \<Rightarrow> string) \<Rightarrow> report \<Rightarrow> found \<Rightarrow> found" where
  "issues_battery fmt r st =
     (case battery r of
        None \<Rightarrow> st
      | Some b \<Rightarrow> issues_battery_cycles b (issues_battery_health fmt b st))"

fun issues_drivers :: "report \<Rightarrow> found \<Rightarrow> found" where
  "issues_drivers r (issues, suggestions) =
     (let drivers_d = dict_get (drivers r) empty_drivers in
      if dict_get (available_updates drivers_d) 0 > 0 then
        (issues @ [str_int (the (available_updates drivers_d)) @ '' driver updates available''],
         suggestions @ [''update your drivers''])
      else (issues, suggestions))"

text \<open>The two lists after line 652, or the exception of line 629.\<close>

definition extract_issues :: "(rat \<Rightarrow> string) \<Rightarrow> report \<Rightarrow> py_error + found" where
  "extract_issues fmt r =
     (case issues_battery_charge r (issues_uptime r (issues_memory r (issues_storage r ([], [])))) of
        Inl e \<Rightarrow> Inl e
      | Inr st \<Rightarrow> Inr (issues_drivers r (issues_battery fmt r st)))"

text \<open>Lines 654-658: the sentence about the issues, appended when there is one.\<close>

definition issues_part :: "string list \<Rightarrow> string list" where
  "issues_part issues =
     (if issues \<noteq> [] then
        (if length issues = 1 then [''I noticed '' @ hd issues @ ''.'']
         else [''I noticed a few things: '' @ join '', '' (butlast issues) @ '', and '' @
               last issues @ ''.''])
      else [])"

text \<open>Lines 660-666.\<close>

definition suggestions_part :: "string list \<Rightarrow> string list" where
  "suggestions_part suggestions =
     (if suggestions \<noteq> [] then
        (if length suggestions = 1 then [''I'd recommend you '' @ hd suggestions @ ''.'']
         else if length suggestions = 2 then
           [''I'd recommend you '' @ hd suggestions @ '' and '' @ suggestions ! 1 @ ''.'']
         else [''I'd recommend you '' @ join '', '' (butlast suggestions) @ '', and '' @
               last suggestions @ ''.''])
      else [])"

text \<open>Lines 668-669.\<close>

definition closing_sentence :: string where
  "closing_sentence = ''Keep up the great work maintaining your system!''"

definition closing_part :: "int \<Rightarrow> string list \<Rightarrow> string list" where
  "closing_part score issues = (if score \<ge> 85 \<and> issues = [] then [closing_sentence] else [])"

text \<open>The list \<^verbatim>\<open>greeting_parts\<close> at line 671, in the order the code appends to it.\<close>

definition greeting_parts :: "datetime \<Rightarrow> int \<Rightarrow> string list \<Rightarrow> string list \<Rightarrow> string list" where
  "greeting_parts current_time score issues suggestions =
     [time_greeting current_time, health_sentence score] @ issues_part issues @
     suggestions_part suggestions @ closing_part score issues"

definition generate_greeting :: "(rat \<Rightarrow> string) \<Rightarrow> datetime \<Rightarrow> report \<Rightarrow> py_error + string" where
  "generate_greeting fmt current_time system_report =
     (let score = dict_get (health_score system_report) 100 in
      case extract_issues fmt system_report of
        Inl e \<Rightarrow> Inl e
      | Inr (issues, suggestions) \<Rightarrow>
          Inr (join '' '' (greeting_parts current_time score issues suggestions)))"

section \<open>\<^verbatim>\<open>SmartGreeting.get_quick_tips\<close>\<close>

text \<open>Lines 682-704: each test appends one tip to the list built so far.\<close>

definition tips_storage :: "report \<Rightarrow> string list \<Rightarrow> string list" where
  "tips_storage r tips =
     (if dict_get (percent_used (dict_get (storage r) empty_usage)) 0 > 80 then
        tips @ [''Run disk cleanup to free up space - empty trash, clear browser cache, and remove temporary files.'']
      else tips)"

definition tips_memory :: "report \<Rightarrow> string list \<Rightarrow> string list" where
  "tips_memory r tips =
     (if dict_get (percent_used (dict_get (memory r) empty_usage)) 0 > 80 then
        tips @ [''Close unnecessary browser tabs and applications to free up RAM.'']
      else tips)"

definition tips_uptime :: "report \<Rightarrow> string list \<Rightarrow> string list" where
  "tips_uptime r tips =
     (if dict_get (uptime_days (dict_get (startup r) empty_startup)) 0 > 7 then
        tips @ [''Restart your computer to apply updates and refresh system processes.'']
      else tips)"

definition tips_autostart :: "report \<Rightarrow> string list \<Rightarrow> string list" where
  "tips_autostart r tips =
     (if length (dict_get (autostart_programs r) []) > 10 then
        tips @ [''Review your startup programs - disable unnecessary ones to speed up boot time.'']
      else tips)"

definition tips_battery :: "(rat \<Rightarrow> string) \<Rightarrow> report \<Rightarrow> string list \<Rightarrow> string list" where
  "tips_battery fmt r tips =
     (case battery r of
        None \<Rightarrow> tips
      | Some b \<Rightarrow>
          (let hp = health_percentage b; cc = cycle_count b in
           if truthy hp \<and> the hp < 80 then
             tips @ [''Battery health is at '' @ fmt (the hp) @
                     ''% - avoid extreme temperatures and deep discharges.'']
           else if truthy cc \<and> the cc > 500 then
             tips @ [''High battery cycle count - consider calibrating battery or reducing charge cycles.'']
           else tips))"

definition tips_score :: "report \<Rightarrow> string list \<Rightarrow> string list" where
  "tips_score r tips =
     (if dict_get (health_score r) 100 < 80 then
        tips @ [''Run a system maintenance routine: update drivers, scan for malware, and clean temporary files.'']
      else tips)"

text \<open>The list \<^verbatim>\<open>tips\<close> before the slice of line 706, and the function's result.\<close>

definition all_tips :: "(rat \<Rightarrow> string) \<Rightarrow> report \<Rightarrow> string list" where
  "all_tips fmt r =
     tips_score r (tips_battery fmt r (tips_autostart r (tips_uptime r (tips_memory r
       (tips_storage r [])))))"

definition get_quick_tips :: "(rat \<Rightarrow> string) \<Rightarrow> report \<Rightarrow> string list" where
  "get_quick_tips fmt r = take 3 (all_tips fmt r)"

section \<open>The methods in the world they run in\<close>

text \<open>
  Besides its arguments a Python function can read the state of the process around it.
  For this program that is the system clock (\<^verbatim>\<open>datetime.now()\<close>) and the generator of the
  module \<^verbatim>\<open>random\<close>, which line 13 imports. A \<open>world\<close> holds both, and a method is a
  function from the world in which the call runs to its result: \<open>io_return\<close> is a result
  computed from the arguments alone, \<open>datetime_now\<close> is the call \<^verbatim>\<open>datetime.now()\<close>, and
  \<open>io_bind\<close> runs one after the other in the same world.
\<close>

record world =
  clock :: datetime
  random_state :: nat

type_synonym 'a io = "world \<Rightarrow> 'a"

definition io_return :: "'a \<Rightarrow> 'a io" where
  "io_return x = (\<lambda>w. x)"

definition io_bind :: "'a io \<Rightarrow> ('a \<Rightarrow> 'b io) \<Rightarrow> 'b io" where
  "io_bind m f = (\<lambda>w. f (m w) w)"

definition datetime_now :: "datetime io" where
  "datetime_now = (\<lambda>w. clock w)"

text \<open>
  \<^verbatim>\<open>get_system_health_score(report)\<close> and lines 611-652 of the greeting call neither
  \<^verbatim>\<open>datetime\<close> nor \<^verbatim>\<open>random\<close>. \<^verbatim>\<open>generate_greeting(system_report)\<close> calls
  \<^verbatim>\<open>datetime.now()\<close> once, at line 586, and never \<^verbatim>\<open>random\<close>.
\<close>

definition call_get_system_health_score :: "report \<Rightarrow> int io" where
  "call_get_system_health_score r = io_return (get_system_health_score r)"

definition call_extract_issues :: "(rat \<Rightarrow> string) \<Rightarrow> report \<Rightarrow> (py_error + found) io" where
  "call_extract_issues fmt r = io_return (extract_issues fmt r)"

definition call_generate_greeting :: "(rat \<Rightarrow> string) \<Rightarrow> report \<Rightarrow> (py_error + string) io" where
  "call_generate_greeting fmt system_report =
     io_bind datetime_now
       (\<lambda>current_time. io_return (generate_greeting fmt current_time system_report))"

section \<open>Reports used as examples\<close>

text \<open>
  The report in which every key is missing, and the report of a machine on which every
  collector failed: \<^verbatim>\<open>{"error": str(e)}\<close> for storage, memory and startup, the one-line
  list of \<^verbatim>\<open>get_autostart_programs\<close>, \<^verbatim>\<open>None\<close> for the battery, and the dictionary
  of \<^verbatim>\<open>check_driver_updates\<close>, which keeps its initial \<^verbatim>\<open>available_updates = 0\<close>.
\<close>

definition missing_report :: report where
  "missing_report = \<lparr>storage = None, memory = None, startup = None, autostart_programs = None,
     battery = None, drivers = None, health_score = None\<rparr>"

definition error_report :: "string \<Rightarrow> string \<Rightarrow> string \<Rightarrow> string \<Rightarrow> string \<Rightarrow> report" where
  "error_report e1 e2 e3 e4 e5 =
     \<lparr>storage = Some \<lparr>error = Some e1, percent_used = None\<rparr>,
      memory = Some \<lparr>error = Some e2, percent_used = None\<rparr>,
      startup = Some \<lparr>error = Some e3, uptime_days = None\<rparr>,
      autostart_programs = Some [''Error detecting autostart: '' @ e4],
      battery = None,
      drivers = Some \<lparr>error = Some e5, available_updates = Some 0\<rparr>,
      health_score = None\<rparr>"

definition only_storage :: "rat \<Rightarrow> report" where
  "only_storage p = missing_report\<lparr>storage := Some \<lparr>error = None, percent_used = Some p\<rparr>\<rparr>"

definition only_battery :: "battery_info \<Rightarrow> report" where
  "only_battery b = missing_report\<lparr>battery := Some b\<rparr>"

text \<open>
  A worn battery, and a battery whose full-charge capacity reads zero: for it
  \<^verbatim>\<open>_get_linux_battery_health\<close> stores \<^verbatim>\<open>health_percentage = 0.0\<close> and the
  \<^verbatim>\<open>health_status\<close> \<^verbatim>\<open>"critical"\<close>.
\<close>

definition battery_worn :: battery_info where
  "battery_worn = \<lparr>status = ''critical'', percent = Some 15, plugged = Some False, health_percentage = Some 45,
     health_status = Some ''critical'', cycle_count = Some 1200\<rparr>"

definition battery_dead :: battery_info where
  "battery_dead = \<lparr>status = ''normal'', percent = Some 50, plugged = Some True, health_percentage = Some 0,
     health_status = Some ''critical'', cycle_count = None\<rparr>"

text \<open>
  The reports on which the greeting returns: a battery dictionary, when there is one,
  holds \<^verbatim>\<open>percent\<close>, as every dictionary of \<^verbatim>\<open>get_battery_info\<close> does. On any other
  report the battery dictionary is not empty (it holds \<^verbatim>\<open>status\<close>), so line 629 goes on
  to compare \<^verbatim>\<open>None\<close> with 20 and raises.
\<close>

definition well_formed :: "report \<Rightarrow> bool" where
  "well_formed r = (case battery r of None \<Rightarrow> True | Some b \<Rightarrow> percent b \<noteq> None)"

text \<open>
  The text Python prints for the float nearest to a non-negative decimal with one place,
  such as the values \<^verbatim>\<open>round(x, 1)\<close> of the collectors: the shortest text that reads
  back as the same float, which is that decimal (\<^verbatim>\<open>45.0\<close>, \<^verbatim>\<open>66.6\<close>). The float itself
  may lie a little under or over the decimal, so the number of tenths is taken to the
  nearest. It stands for the parameter \<open>fmt\<close> in the examples.
\<close>

definition str_float1 :: "rat \<Rightarrow> string" where
  "str_float1 x =
     (let tenths = \<lfloor>x * 10 + 1 / 2\<rfloor> in
      str_int (tenths div 10) @ ''.'' @ [digit_char (nat (tenths mod 10))])"

definition only_memory :: "rat \<Rightarrow> int \<Rightarrow> report" where
  "only_memory p sc = missing_report\<lparr>memory := Some \<lparr>error = None, percent_used = Some p\<rparr>,
     health_score := Some sc\<rparr>"

definition two_issues_report :: report where
  "two_issues_report = missing_report\<lparr>
     storage := Some \<lparr>error = None, percent_used = Some 95\<rparr>,
     memory := Some \<lparr>error = None, percent_used = Some 88\<rparr>,
     health_score := Some 72\<rparr>"

text \<open>
  A report on which all six tests of \<^verbatim>\<open>get_quick_tips\<close> hold. Its list of eleven
  autostart programs is longer than \<^verbatim>\<open>get_autostart_programs\<close> returns (it cuts the
  list at ten), so the report is an argument of the function, not one the collectors build.
\<close>

definition busy_report :: report where
  "busy_report =
     \<lparr>storage = Some \<lparr>error = None, percent_used = Some 95\<rparr>,
      memory = Some \<lparr>error = None, percent_used = Some 95\<rparr>,
      startup = Some \<lparr>error = None, uptime_days = Some 10\<rparr>,
      autostart_programs = Some (replicate 11 ''updater''),
      battery = Some \<lparr>status = ''normal'', percent = Some 80, plugged = Some True,
        health_percentage = Some 60, health_status = Some ''poor'', cycle_count = Some 900\<rparr>,
      drivers = Some \<lparr>error = None, available_updates = Some 2\<rparr>,
      health_score = Some 40\<rparr>"

definition at_hour :: "nat \<Rightarrow> datetime" where
  "at_hour h = \<lparr>hour = h, minute = 0, second = 0\<rparr>"

text \<open>
  The world at a given hour and minute, with a given state of the random generator, and
  a battery dictionary that lacks \<^verbatim>\<open>percent\<close>.
\<close>

definition world_at :: "nat \<Rightarrow> nat \<Rightarrow> nat \<Rightarrow> world" where
  "world_at h m seed = \<lparr>clock = \<lparr>hour = h, minute = m, second = 0\<rparr>, random_state = seed\<rparr>"

definition battery_no_percent :: battery_info where
  "battery_no_percent = \<lparr>status = ''normal'', percent = None, plugged = Some True,
     health_percentage = None, health_status = None, cycle_count = None\<rparr>"

text \<open>The score before the last line clamps it.\<close>

definition raw_score :: "report \<Rightarrow> int" where
  "raw_score r =
     score_drivers r (score_startup r (score_battery r (score_memory r (score_storage r 100))))"

section \<open>The health score\<close>

lemmas score_defs = get_system_health_score_def score_storage_def score_memory_def
  score_battery_def score_battery_charge_def score_battery_health_def score_battery_cycles_def
  score_startup_def score_drivers_def dict_get_def truthy_def not_plugged_def
  empty_usage_def empty_startup_def empty_drivers_def missing_report_def

subsection \<open>Each block subtracts an amount that does not depend on the running score\<close>

lemma score_storage_shift: "score_storage r s = s + score_storage r 0"
  by (simp add: score_storage_def Let_def)

lemma score_memory_shift: "score_memory r s = s + score_memory r 0"
  by (simp add: score_memory_def Let_def)

lemma score_battery_charge_shift: "score_battery_charge b s = s + score_battery_charge b 0"
  by (simp add: score_battery_charge_def)

lemma score_battery_health_shift: "score_battery_health b s = s + score_battery_health b 0"
  by (simp add: score_battery_health_def Let_def)

lemma score_battery_cycles_shift: "score_battery_cycles b s = s + score_battery_cycles b 0"
  by (simp add: score_battery_cycles_def Let_def)

lemma score_startup_shift: "score_startup r s = s + score_startup r 0"
  by (simp add: score_startup_def Let_def)

lemma score_drivers_shift: "score_drivers r s = s + score_drivers r 0"
  by (simp add: score_drivers_def Let_def)

lemma score_battery_Some:
  "battery r = Some b \<Longrightarrow> score_battery r s =
     s + score_battery_charge b 0 + score_battery_health b 0 + score_battery_cycles b 0"
  using score_battery_cycles_shift [of b "score_battery_health b (score_battery_charge b s)"]
    score_battery_health_shift [of b "score_battery_charge b s"]
    score_battery_charge_shift [of b s]
  by (simp add: score_battery_def)

lemma score_battery_None: "battery r = None \<Longrightarrow> score_battery r s = s"
  by (simp add: score_battery_def)

lemma score_battery_shift: "score_battery r s = s + score_battery r 0"
  by (cases "battery r") (simp_all add: score_battery_None score_battery_Some)

subsection \<open>The largest amount each block subtracts\<close>

lemma score_storage_range: "- 20 \<le> score_storage r 0 \<and> score_storage r 0 \<le> 0"
  by (simp add: score_storage_def Let_def)

lemma score_memory_range: "- 15 \<le> score_memory r 0 \<and> score_memory r 0 \<le> 0"
  by (simp add: score_memory_def Let_def)

lemma score_battery_charge_range:
  "- 10 \<le> score_battery_charge b 0 \<and> score_battery_charge b 0 \<le> 0"
  by (simp add: score_battery_charge_def)

lemma score_battery_health_range:
  "- 25 \<le> score_battery_health b 0 \<and> score_battery_health b 0 \<le> 0"
  by (simp add: score_battery_health_def Let_def)

lemma score_battery_cycles_range:
  "- 10 \<le> score_battery_cycles b 0 \<and> score_battery_cycles b 0 \<le> 0"
  by (simp add: score_battery_cycles_def Let_def)

lemma score_battery_range: "- 45 \<le> score_battery r 0 \<and> score_battery r 0 \<le> 0"
proof (cases "battery r")
  case None
  then show ?thesis by (simp add: score_battery_None)
next
  case (Some b)
  show ?thesis
    using score_battery_charge_range [of b] score_battery_health_range [of b]
      score_battery_cycles_range [of b]
    by (simp add: score_battery_Some [OF Some])
qed

lemma score_startup_range: "- 5 \<le> score_startup r 0 \<and> score_startup r 0 \<le> 0"
  by (simp add: score_startup_def Let_def)

lemma score_drivers_range: "- 15 \<le> score_drivers r 0 \<and> score_drivers r 0 \<le> 0"
  by (simp add: score_drivers_def Let_def)

lemma raw_score_sum:
  "raw_score r = 100 + score_storage r 0 + score_memory r 0 + score_battery r 0 +
     score_startup r 0 + score_drivers r 0"
  unfolding raw_score_def
  using score_drivers_shift [of r "score_startup r (score_battery r (score_memory r (score_storage r 100)))"]
    score_startup_shift [of r "score_battery r (score_memory r (score_storage r 100))"]
    score_battery_shift [of r "score_memory r (score_storage r 100)"]
    score_memory_shift [of r "score_storage r 100"]
    score_storage_shift [of r 100]
  by simp

text \<open>
  The five largest amounts add up to exactly 100, so the score is never negative even
  before \<^verbatim>\<open>max(0, score)\<close>.
\<close>

lemma raw_score_range: "0 \<le> raw_score r \<and> raw_score r \<le> 100"
  using score_storage_range [of r] score_memory_range [of r] score_battery_range [of r]
    score_startup_range [of r] score_drivers_range [of r]
  by (simp add: raw_score_sum)

lemma score_sum:
  "get_system_health_score r = 100 + score_storage r 0 + score_memory r 0 + score_battery r 0 +
     score_startup r 0 + score_drivers r 0"
proof -
  have "get_system_health_score r = max 0 (raw_score r)"
    by (simp add: get_system_health_score_def raw_score_def)
  also have "\<dots> = raw_score r" using raw_score_range [of r] by simp
  finally show ?thesis by (simp add: raw_score_sum)
qed

lemma score_without_storage:
  "get_system_health_score (r\<lparr>storage := None\<rparr>) = 100 + score_memory r 0 + score_battery r 0 +
     score_startup r 0 + score_drivers r 0"
  by (simp add: score_sum) (simp add: score_defs)

text \<open>
  C1. On every report the score is an integer between 0 and 100. The model is a total
  function, as the code is on a report of this type: no branch of the score compares or
  subtracts a missing value. The report with every key missing scores 100, and so does
  the report made of the collectors' error values.
\<close>

theorem score_in_range:
  "0 \<le> get_system_health_score r \<and> get_system_health_score r \<le> 100 \<and>
   get_system_health_score missing_report = 100 \<and>
   get_system_health_score (error_report e1 e2 e3 e4 e5) = 100"
proof -
  have a: "0 \<le> get_system_health_score r \<and> get_system_health_score r \<le> 100"
    using raw_score_range [of r] by (simp add: get_system_health_score_def raw_score_def)
  have b: "get_system_health_score missing_report = 100"
    by (simp add: score_defs)
  have c: "get_system_health_score (error_report e1 e2 e3 e4 e5) = 100"
    by (simp add: get_system_health_score_def error_report_def score_storage_def score_memory_def
        score_battery_def score_startup_def score_drivers_def dict_get_def)
  from a b c show ?thesis by simp
qed

text \<open>
  C2, as stated, fails: with \<^verbatim>\<open>percent_used\<close> exactly 90 the first test \<open>90 > 90\<close> is
  false and the second, \<open>90 > 80\<close>, is true, so the storage block lowers the score by 10.
\<close>

theorem storage_90_counterexample:
  "score_storage (only_storage 90) 100 = 90 \<and>
   get_system_health_score (only_storage 90) = 90 \<and>
   get_system_health_score ((only_storage 90)\<lparr>storage := None\<rparr>) = 100"
  by (simp add: score_defs only_storage_def)

text \<open>
  C2, amended. Both storage comparisons are strict: a report whose storage dictionary
  holds \<^verbatim>\<open>percent_used = p\<close> scores what the same report without storage scores, less
  20 when \<open>p > 90\<close>, less 10 when \<open>80 < p \<le> 90\<close> (so at exactly 90) and less nothing
  when \<open>p \<le> 80\<close>.
\<close>

theorem storage_tiers_strict:
  assumes "storage r = Some s" and "percent_used s = Some p"
  shows "get_system_health_score r =
           get_system_health_score (r\<lparr>storage := None\<rparr>) -
             (if p > 90 then 20 else if p > 80 then 10 else 0)"
proof -
  have "score_storage r 0 = - (if p > 90 then 20 else if p > 80 then 10 else 0)"
    using assms by (simp add: score_storage_def dict_get_def)
  then show ?thesis
    by (simp add: score_sum [of r] score_without_storage)
qed

theorem storage_tiers_strict_witness:
  "get_system_health_score (only_storage 90) = get_system_health_score missing_report - 10 \<and>
   get_system_health_score (only_storage 91) = get_system_health_score missing_report - 20 \<and>
   get_system_health_score (only_storage 80) = get_system_health_score missing_report"
  using storage_tiers_strict [of "only_storage 90" "\<lparr>error = None, percent_used = Some 90\<rparr>" 90]
    storage_tiers_strict [of "only_storage 91" "\<lparr>error = None, percent_used = Some 91\<rparr>" 91]
    storage_tiers_strict [of "only_storage 80" "\<lparr>error = None, percent_used = Some 80\<rparr>" 80]
  by (simp add: only_storage_def missing_report_def)

text \<open>
  C4 at \<^verbatim>\<open>health_percentage = 0.0\<close>: the test \<^verbatim>\<open>if health_percentage:\<close> of line 521 is
  false for zero, so the three tiers below it are skipped and nothing is subtracted; the
  report scores 100, where the claim has 75.
\<close>

theorem battery_health_zero_scores_100:
  "get_system_health_score (only_battery battery_dead) = 100 \<and>
   score_battery_health battery_dead 100 = 100"
  by (simp add: score_defs only_battery_def battery_dead_def)

text \<open>
  C5, as stated, fails on its number: the three battery amounts are subtracted one after
  the other, and 100 - 10 - 25 - 10 is 55, not 65.
\<close>

theorem battery_worn_counterexample:
  "get_system_health_score (only_battery battery_worn) \<noteq> 65"
  by (simp add: score_defs only_battery_def battery_worn_def)

text \<open>
  C5, amended. The battery amounts for charge, health and cycle count add up: a report
  with nothing but a battery scores 100 less the three of them, and the battery with
  15 percent charge, unplugged, 45 percent health and 1200 cycles scores
  100 - 10 - 25 - 10 = 55.
\<close>

theorem battery_deductions_add:
  "get_system_health_score (only_battery battery_worn) = 55 \<and>
   score_battery_charge battery_worn 0 = - 10 \<and>
   score_battery_health battery_worn 0 = - 25 \<and>
   score_battery_cycles battery_worn 0 = - 10 \<and>
   get_system_health_score (only_battery b) =
     100 + score_battery_charge b 0 + score_battery_health b 0 + score_battery_cycles b 0"
proof -
  have bat: "battery (only_battery b) = Some b" for b
    by (simp add: only_battery_def missing_report_def)
  have rest: "score_storage (only_battery b) 0 = 0 \<and> score_memory (only_battery b) 0 = 0 \<and>
      score_startup (only_battery b) 0 = 0 \<and> score_drivers (only_battery b) 0 = 0" for b
    by (simp add: score_storage_def score_memory_def score_startup_def score_drivers_def
        dict_get_def empty_usage_def empty_startup_def empty_drivers_def only_battery_def
        missing_report_def)
  have "get_system_health_score (only_battery b) =
     100 + score_battery_charge b 0 + score_battery_health b 0 + score_battery_cycles b 0" for b
    by (simp add: score_sum score_battery_Some [OF bat] rest)
  moreover have "score_battery_charge battery_worn 0 = - 10"
    by (simp add: score_defs battery_worn_def)
  moreover have "score_battery_health battery_worn 0 = - 25"
    by (simp add: score_defs battery_worn_def)
  moreover have "score_battery_cycles battery_worn 0 = - 10"
    by (simp add: score_defs battery_worn_def)
  ultimately show ?thesis by simp
qed

section \<open>The issues and suggestions\<close>

lemma uptime_text_neq: "x @ '' days uptime'' \<noteq> ''high memory usage''"
proof
  assume "x @ '' days uptime'' = ''high memory usage''"
  then have "rev (x @ '' days uptime'') = rev ''high memory usage''" by simp
  then show False by simp
qed

lemma drivers_text_neq: "x @ '' driver updates available'' \<noteq> ''high memory usage''"
proof
  assume "x @ '' driver updates available'' = ''high memory usage''"
  then have "rev (x @ '' driver updates available'') = rev ''high memory usage''" by simp
  then show False by simp
qed

lemma step_storage:
  assumes "length i = length s"
  shows "\<exists>i' s'. issues_storage r (i, s) = (i', s') \<and> length i' = length s' \<and>
     (''high memory usage'' \<in> set i') = (''high memory usage'' \<in> set i) \<and>
     ((''high memory usage'', ''close unused applications'') \<in> set (zip i' s')) =
     ((''high memory usage'', ''close unused applications'') \<in> set (zip i s))"
  using assms by (simp add: Let_def)

lemma step_memory:
  assumes "length i = length s" and "''high memory usage'' \<notin> set i"
  shows "\<exists>i' s'. issues_memory r (i, s) = (i', s') \<and> length i' = length s' \<and>
     (''high memory usage'' \<in> set i') =
       (dict_get (percent_used (dict_get (memory r) empty_usage)) 0 > 85) \<and>
     ((''high memory usage'', ''close unused applications'') \<in> set (zip i' s')) =
       (dict_get (percent_used (dict_get (memory r) empty_usage)) 0 > 85)"
  using assms by (auto simp add: Let_def dest: set_zip_leftD)

lemma step_uptime:
  assumes "length i = length s"
  shows "\<exists>i' s'. issues_uptime r (i, s) = (i', s') \<and> length i' = length s' \<and>
     (''high memory usage'' \<in> set i') = (''high memory usage'' \<in> set i) \<and>
     ((''high memory usage'', ''close unused applications'') \<in> set (zip i' s')) =
     ((''high memory usage'', ''close unused applications'') \<in> set (zip i s))"
  using assms uptime_text_neq [symmetric] by (simp add: Let_def)

lemma step_battery_charge:
  assumes "length i = length s" and "well_formed r"
  shows "\<exists>i' s'. issues_battery_charge r (i, s) = Inr (i', s') \<and> length i' = length s' \<and>
     (''high memory usage'' \<in> set i') = (''high memory usage'' \<in> set i) \<and>
     ((''high memory usage'', ''close unused applications'') \<in> set (zip i' s')) =
     ((''high memory usage'', ''close unused applications'') \<in> set (zip i s))"
  using assms by (auto simp add: well_formed_def split: option.splits)

lemma step_battery_health:
  assumes "length i = length s"
  shows "\<exists>i' s'. issues_battery_health fmt b (i, s) = (i', s') \<and> length i' = length s' \<and>
     (''high memory usage'' \<in> set i') = (''high memory usage'' \<in> set i) \<and>
     ((''high memory usage'', ''close unused applications'') \<in> set (zip i' s')) =
     ((''high memory usage'', ''close unused applications'') \<in> set (zip i s))"
  using assms by (simp add: Let_def)

lemma step_battery_cycles:
  assumes "length i = length s"
  shows "\<exists>i' s'. issues_battery_cycles b (i, s) = (i', s') \<and> length i' = length s' \<and>
     (''high memory usage'' \<in> set i') = (''high memory usage'' \<in> set i) \<and>
     ((''high memory usage'', ''close unused applications'') \<in> set (zip i' s')) =
     ((''high memory usage'', ''close unused applications'') \<in> set (zip i s))"
  using assms by (simp add: Let_def)

lemma step_battery:
  assumes "length i = length s"
  shows "\<exists>i' s'. issues_battery fmt r (i, s) = (i', s') \<and> length i' = length s' \<and>
     (''high memory usage'' \<in> set i') = (''high memory usage'' \<in> set i) \<and>
     ((''high memory usage'', ''close unused applications'') \<in> set (zip i' s')) =
     ((''high memory usage'', ''close unused applications'') \<in> set (zip i s))"
proof (cases "battery r")
  case None
  then show ?thesis using assms by (simp add: issues_battery_def)
next
  case (Some b)
  from step_battery_health [OF assms, of fmt b] obtain i1 s1 where
    1: "issues_battery_health fmt b (i, s) = (i1, s1)" "length i1 = length s1"
     "(''high memory usage'' \<in> set i1) = (''high memory usage'' \<in> set i)"
     "((''high memory usage'', ''close unused applications'') \<in> set (zip i1 s1)) =
     ((''high memory usage'', ''close unused applications'') \<in> set (zip i s))"
    by blast
  from step_battery_cycles [OF 1(2), of b] obtain i2 s2 where
    2: "issues_battery_cycles b (i1, s1) = (i2, s2)" "length i2 = length s2"
     "(''high memory usage'' \<in> set i2) = (''high memory usage'' \<in> set i1)"
     "((''high memory usage'', ''close unused applications'') \<in> set (zip i2 s2)) =
     ((''high memory usage'', ''close unused applications'') \<in> set (zip i1 s1))"
    by blast
  have "issues_battery fmt r (i, s) = (i2, s2)"
    by (simp only: issues_battery_def Some option.case 1(1) 2(1))
  then show ?thesis using 1 2 by simp
qed

lemma step_drivers:
  assumes "length i = length s"
  shows "\<exists>i' s'. issues_drivers r (i, s) = (i', s') \<and> length i' = length s' \<and>
     (''high memory usage'' \<in> set i') = (''high memory usage'' \<in> set i) \<and>
     ((''high memory usage'', ''close unused applications'') \<in> set (zip i' s')) =
     ((''high memory usage'', ''close unused applications'') \<in> set (zip i s))"
  using assms drivers_text_neq [symmetric] by (simp add: Let_def)


lemma extract_issues_memory:
  assumes "well_formed r"
  shows "\<exists>issues suggestions. extract_issues fmt r = Inr (issues, suggestions) \<and>
     length issues = length suggestions \<and>
     (''high memory usage'' \<in> set issues) =
       (dict_get (percent_used (dict_get (memory r) empty_usage)) 0 > 85) \<and>
     ((''high memory usage'', ''close unused applications'') \<in> set (zip issues suggestions)) =
       (dict_get (percent_used (dict_get (memory r) empty_usage)) 0 > 85)"
proof -
  let ?M = "''high memory usage''" and ?P = "(''high memory usage'', ''close unused applications'')"
  from step_storage [of "[]" "[]" r] obtain i1 s1 where
    1: "issues_storage r ([], []) = (i1, s1)" "length i1 = length s1" "?M \<notin> set i1"
    by auto
  from step_memory [OF 1(2) 1(3), of r] obtain i2 s2 where
    2: "issues_memory r (i1, s1) = (i2, s2)" "length i2 = length s2"
      "(?M \<in> set i2) = (dict_get (percent_used (dict_get (memory r) empty_usage)) 0 > 85)"
      "(?P \<in> set (zip i2 s2)) = (dict_get (percent_used (dict_get (memory r) empty_usage)) 0 > 85)"
    by blast
  from step_uptime [OF 2(2), of r] obtain i3 s3 where
    3: "issues_uptime r (i2, s2) = (i3, s3)" "length i3 = length s3"
      "(?M \<in> set i3) = (?M \<in> set i2)" "(?P \<in> set (zip i3 s3)) = (?P \<in> set (zip i2 s2))"
    by blast
  from step_battery_charge [OF 3(2) assms] obtain i4 s4 where
    4: "issues_battery_charge r (i3, s3) = Inr (i4, s4)" "length i4 = length s4"
      "(?M \<in> set i4) = (?M \<in> set i3)" "(?P \<in> set (zip i4 s4)) = (?P \<in> set (zip i3 s3))"
    by blast
  from step_battery [OF 4(2), of fmt r] obtain i5 s5 where
    5: "issues_battery fmt r (i4, s4) = (i5, s5)" "length i5 = length s5"
      "(?M \<in> set i5) = (?M \<in> set i4)" "(?P \<in> set (zip i5 s5)) = (?P \<in> set (zip i4 s4))"
    by blast
  from step_drivers [OF 5(2), of r] obtain i6 s6 where
    6: "issues_drivers r (i5, s5) = (i6, s6)" "length i6 = length s6"
      "(?M \<in> set i6) = (?M \<in> set i5)" "(?P \<in> set (zip i6 s6)) = (?P \<in> set (zip i5 s5))"
    by blast
  have "extract_issues fmt r = Inr (i6, s6)"
    by (simp only: extract_issues_def 1(1) 2(1) 3(1) 4(1) 5(1) 6(1) sum.case)
  then show ?thesis
    using 2 3 4 5 6 by simp
qed

lemma extract_issues_error:
  "extract_issues fmt r = Inl e \<Longrightarrow> \<not> well_formed r"
  using extract_issues_memory [of r fmt] by auto

lemma not_well_formed_raises:
  assumes "\<not> well_formed r"
  shows "extract_issues fmt r = Inl TypeError"
proof -
  obtain i s where st: "issues_uptime r (issues_memory r (issues_storage r ([], []))) = (i, s)"
    by (cases "issues_uptime r (issues_memory r (issues_storage r ([], [])))")
  have "issues_battery_charge r (i, s) = Inl TypeError"
    using assms by (auto simp add: well_formed_def split: option.splits)
  then show ?thesis by (simp only: extract_issues_def st sum.case)
qed

section \<open>The greeting\<close>

lemma join_snoc: "xs \<noteq> [] \<Longrightarrow> join sep (xs @ [x]) = join sep xs @ sep @ x"
  by (induction sep xs rule: join.induct) auto

lemma suffix_last: "suffix xs ys \<Longrightarrow> xs \<noteq> [] \<Longrightarrow> last ys = last xs"
  by (auto simp: suffix_def)

lemma health_sentence_last: "last (health_sentence s) = CHR ''.''"
  by (simp add: health_sentence_def)

lemma health_sentence_nonempty: "health_sentence s \<noteq> []"
  by (simp add: health_sentence_def)

lemma extract_issues_lengths:
  assumes "extract_issues fmt r = Inr (issues, suggestions)"
  shows "length issues = length suggestions"
proof -
  have "well_formed r"
    using assms not_well_formed_raises [of r fmt] by auto
  from extract_issues_memory [OF this, of fmt] show ?thesis
    using assms by auto
qed

lemma suggestions_part_shape:
  "suggestions \<noteq> [] \<Longrightarrow> \<exists>S. suggestions_part suggestions = [S @ ''.'']"
  by (simp add: suggestions_part_def)

lemma issues_part_neq_closing: "closing_sentence \<notin> set (issues_part issues)"
  by (simp add: issues_part_def closing_sentence_def)

lemma suggestions_part_neq_closing: "closing_sentence \<notin> set (suggestions_part suggestions)"
  by (simp add: suggestions_part_def closing_sentence_def)

lemma time_greeting_neq_closing: "time_greeting t \<noteq> closing_sentence"
  by (simp add: time_greeting_def closing_sentence_def)

lemma health_sentence_neq_closing: "health_sentence sc \<noteq> closing_sentence"
  by (simp add: health_sentence_def closing_sentence_def)

lemma closing_in_parts:
  "(closing_sentence \<in> set (greeting_parts t sc issues suggestions)) = (sc \<ge> 85 \<and> issues = [])"
  using issues_part_neq_closing [of issues] suggestions_part_neq_closing [of suggestions]
    time_greeting_neq_closing [of t, symmetric] health_sentence_neq_closing [of sc, symmetric]
  by (simp add: greeting_parts_def closing_part_def)

lemma greeting_ends_with_closing:
  assumes "length issues = length suggestions"
  shows "suffix closing_sentence (join '' '' (greeting_parts t sc issues suggestions)) =
           (sc \<ge> 85 \<and> issues = [])"
proof (cases "issues = []")
  case True
  then have sg: "suggestions = []" using assms by simp
  show ?thesis
  proof (cases "sc \<ge> 85")
    case True
    have "join '' '' (greeting_parts t sc issues suggestions) =
        (time_greeting t @ '' '' @ health_sentence sc @ '' '') @ closing_sentence"
      using True \<open>issues = []\<close> sg
      by (simp add: greeting_parts_def closing_part_def issues_part_def suggestions_part_def)
    then have "suffix closing_sentence (join '' '' (greeting_parts t sc issues suggestions))"
      by (simp only: suffix_def) blast
    then show ?thesis using True \<open>issues = []\<close> by simp
  next
    case False
    have g: "join '' '' (greeting_parts t sc issues suggestions) =
        time_greeting t @ '' '' @ health_sentence sc"
      using False \<open>issues = []\<close> sg
      by (simp add: greeting_parts_def closing_part_def issues_part_def suggestions_part_def)
    have "last (join '' '' (greeting_parts t sc issues suggestions)) = CHR ''.''"
      using health_sentence_nonempty [of sc] health_sentence_last [of sc] by (simp add: g)
    then have "\<not> suffix closing_sentence (join '' '' (greeting_parts t sc issues suggestions))"
      using suffix_last [of closing_sentence "join '' '' (greeting_parts t sc issues suggestions)"]
      by (auto simp add: closing_sentence_def)
    then show ?thesis using False by simp
  qed
next
  case False
  then have "suggestions \<noteq> []" using assms by auto
  then obtain S where S: "suggestions_part suggestions = [S @ ''.'']"
    using suggestions_part_shape by blast
  define xs where "xs = [time_greeting t, health_sentence sc] @ issues_part issues"
  have "xs \<noteq> []" by (simp add: xs_def)
  have "greeting_parts t sc issues suggestions = xs @ [S @ ''.'']"
    using False by (simp add: greeting_parts_def closing_part_def S xs_def)
  then have "join '' '' (greeting_parts t sc issues suggestions) = join '' '' xs @ '' '' @ S @ ''.''"
    using \<open>xs \<noteq> []\<close> by (simp add: join_snoc)
  then have "last (join '' '' (greeting_parts t sc issues suggestions)) = CHR ''.''"
    by simp
  then have "\<not> suffix closing_sentence (join '' '' (greeting_parts t sc issues suggestions))"
    using suffix_last [of closing_sentence "join '' '' (greeting_parts t sc issues suggestions)"]
    by (auto simp add: closing_sentence_def)
  then show ?thesis using False by simp
qed

lemmas issue_defs = extract_issues_def issues_battery_def dict_get_def truthy_def
  not_plugged_def empty_usage_def empty_startup_def empty_drivers_def missing_report_def Let_def

text \<open>
  C10. On every well-formed report the extraction returns, and the list of issues and
  the list of suggestions it returns have the same length: every block that appends an
  issue appends one suggestion with it. So one list is empty exactly when the other is.
\<close>

theorem issues_suggestions_same_length:
  assumes "well_formed r"
  shows "\<exists>issues suggestions. extract_issues fmt r = Inr (issues, suggestions) \<and>
     length issues = length suggestions \<and> (issues = []) = (suggestions = [])"
  using extract_issues_memory [OF assms, of fmt] by auto

theorem issues_suggestions_same_length_witness:
  "well_formed busy_report \<and>
   (\<exists>issues suggestions. extract_issues str_float1 busy_report = Inr (issues, suggestions) \<and>
      length issues = length suggestions \<and> (issues = []) = (suggestions = []))"
proof -
  have w: "well_formed busy_report" by (simp add: well_formed_def busy_report_def)
  from issues_suggestions_same_length [OF w, of str_float1] w show ?thesis by simp
qed

text \<open>
  C6. On every well-formed report the issue \<^verbatim>\<open>high memory usage\<close> is in the list of issues,
  and is paired with the suggestion \<^verbatim>\<open>close unused applications\<close>, exactly when the
  memory \<^verbatim>\<open>percent_used\<close> is above 85. The score uses other thresholds for the same
  value: it subtracts 15 above 90 and 8 above 80.
\<close>

theorem memory_issue_threshold:
  assumes "well_formed r"
  shows "\<exists>issues suggestions. extract_issues fmt r = Inr (issues, suggestions) \<and>
     (''high memory usage'' \<in> set issues) =
       (dict_get (percent_used (dict_get (memory r) empty_usage)) 0 > 85) \<and>
     ((''high memory usage'', ''close unused applications'') \<in> set (zip issues suggestions)) =
       (dict_get (percent_used (dict_get (memory r) empty_usage)) 0 > 85) \<and>
     score_memory r 0 =
       - (if dict_get (percent_used (dict_get (memory r) empty_usage)) 0 > 90 then 15
          else if dict_get (percent_used (dict_get (memory r) empty_usage)) 0 > 80 then 8
          else 0)"
proof -
  have "score_memory r 0 =
       - (if dict_get (percent_used (dict_get (memory r) empty_usage)) 0 > 90 then 15
          else if dict_get (percent_used (dict_get (memory r) empty_usage)) 0 > 80 then 8
          else 0)"
    by (simp add: score_memory_def Let_def)
  with extract_issues_memory [OF assms, of fmt] show ?thesis by auto
qed

theorem memory_issue_threshold_witness:
  "well_formed (only_memory 88 92) \<and>
   (\<exists>issues suggestions.
      extract_issues str_float1 (only_memory 88 92) = Inr (issues, suggestions) \<and>
      ''high memory usage'' \<in> set issues \<and>
      (''high memory usage'', ''close unused applications'') \<in> set (zip issues suggestions) \<and>
      score_memory (only_memory 88 92) 0 = - 8) \<and>
   well_formed (only_memory 83 92) \<and>
   (\<exists>issues suggestions.
      extract_issues str_float1 (only_memory 83 92) = Inr (issues, suggestions) \<and>
      ''high memory usage'' \<notin> set issues \<and>
      (''high memory usage'', ''close unused applications'') \<notin> set (zip issues suggestions) \<and>
      score_memory (only_memory 83 92) 0 = - 8)"
proof -
  have w1: "well_formed (only_memory 88 92)" and w2: "well_formed (only_memory 83 92)"
    by (simp_all add: well_formed_def only_memory_def missing_report_def)
  have p1: "dict_get (percent_used (dict_get (memory (only_memory 88 92)) empty_usage)) 0 = 88"
    and p2: "dict_get (percent_used (dict_get (memory (only_memory 83 92)) empty_usage)) 0 = 83"
    by (simp_all add: only_memory_def missing_report_def dict_get_def)
  from memory_issue_threshold [OF w1, of str_float1] memory_issue_threshold [OF w2, of str_float1]
  show ?thesis
    unfolding p1 p2 using w1 w2 by simp
qed

text \<open>
  C7. On every well-formed report the greeting is returned, and the closing sentence is
  one of its parts, and the text the greeting ends with, exactly when the
  \<^verbatim>\<open>health_score\<close> of the report is at least 85 and the list of issues is empty. At a
  score of 85 with one issue it is absent.
\<close>

theorem closing_sentence_iff:
  assumes "well_formed r"
  shows "\<exists>issues suggestions g.
     extract_issues fmt r = Inr (issues, suggestions) \<and> generate_greeting fmt t r = Inr g \<and>
     suffix closing_sentence g = (dict_get (health_score r) 100 \<ge> 85 \<and> issues = []) \<and>
     (closing_sentence \<in> set (greeting_parts t (dict_get (health_score r) 100) issues suggestions)) =
       (dict_get (health_score r) 100 \<ge> 85 \<and> issues = [])"
proof -
  from extract_issues_memory [OF assms, of fmt] obtain issues suggestions where
    e: "extract_issues fmt r = Inr (issues, suggestions)" and l: "length issues = length suggestions"
    by blast
  have g: "generate_greeting fmt t r =
      Inr (join '' '' (greeting_parts t (dict_get (health_score r) 100) issues suggestions))"
    by (simp add: generate_greeting_def e)
  show ?thesis
    using e g greeting_ends_with_closing [OF l, of t "dict_get (health_score r) 100"]
      closing_in_parts [of t "dict_get (health_score r) 100" issues suggestions]
    by blast
qed

theorem closing_sentence_iff_witness:
  "well_formed (only_memory 88 85) \<and>
   (\<exists>g. generate_greeting str_float1 (at_hour 9) (only_memory 88 85) = Inr g \<and>
      \<not> suffix closing_sentence g) \<and>
   well_formed (only_memory 50 85) \<and>
   (\<exists>g. generate_greeting str_float1 (at_hour 9) (only_memory 50 85) = Inr g \<and>
      suffix closing_sentence g)"
proof -
  have w1: "well_formed (only_memory 88 85)" and w2: "well_formed (only_memory 50 85)"
    by (simp_all add: well_formed_def only_memory_def missing_report_def)
  have e1: "extract_issues str_float1 (only_memory 88 85) =
      Inr ([''high memory usage''], [''close unused applications''])"
    by (simp add: issue_defs only_memory_def)
  have e2: "extract_issues str_float1 (only_memory 50 85) = Inr ([], [])"
    by (simp add: issue_defs only_memory_def)
  have s: "dict_get (health_score (only_memory 88 85)) 100 = 85"
    "dict_get (health_score (only_memory 50 85)) 100 = 85"
    by (simp_all add: only_memory_def missing_report_def dict_get_def)
  from closing_sentence_iff [OF w1, of str_float1 "at_hour 9"]
    closing_sentence_iff [OF w2, of str_float1 "at_hour 9"]
  show ?thesis
    unfolding e1 e2 s using w1 w2 by auto
qed

lemma last_snoc2: "last (xs @ [y, z]) = z" and butlast_snoc2: "butlast (xs @ [y, z]) = xs @ [y]"
  by (simp_all add: butlast_append)

text \<open>
  C8. The sentence for one issue is \<^verbatim>\<open>I noticed X.\<close>; for two or more it starts with
  \<^verbatim>\<open>I noticed a few things:\<close>, and the last issue follows a comma and \<^verbatim>\<open>and\<close>. Exactly
  two suggestions are joined by \<^verbatim>\<open>and\<close> with no comma; three or more are a list with a
  comma before \<^verbatim>\<open>and\<close>; the text for two differs from what the list format would give.
\<close>

theorem joining_formats:
  "issues_part [] = [] \<and>
   issues_part [x] = [''I noticed '' @ x @ ''.''] \<and>
   issues_part [x, y] = [''I noticed a few things: '' @ x @ '', and '' @ y @ ''.''] \<and>
   issues_part [x, y, z] = [''I noticed a few things: '' @ x @ '', '' @ y @ '', and '' @ z @ ''.''] \<and>
   issues_part (xs @ [y, z]) =
     [''I noticed a few things: '' @ join '', '' (xs @ [y]) @ '', and '' @ z @ ''.''] \<and>
   suggestions_part [] = [] \<and>
   suggestions_part [a] = [''I'd recommend you '' @ a @ ''.''] \<and>
   suggestions_part [a, b] = [''I'd recommend you '' @ a @ '' and '' @ b @ ''.''] \<and>
   suggestions_part [a, b, c] = [''I'd recommend you '' @ a @ '', '' @ b @ '', and '' @ c @ ''.''] \<and>
   suggestions_part (xs @ [a, b, c]) =
     [''I'd recommend you '' @ join '', '' (xs @ [a, b]) @ '', and '' @ c @ ''.''] \<and>
   suggestions_part [a, b] \<noteq> [''I'd recommend you '' @ a @ '', and '' @ b @ ''.''] \<and>
   generate_greeting fmt (at_hour 9) two_issues_report =
     Inr ''Good morning! Your system is running well, though there might be room for minor improvements. I noticed a few things: critically low disk space, and high memory usage. I'd recommend you free up disk space immediately and close unused applications.''"
proof -
  have i0: "issues_part [] = []" and i1: "issues_part [x] = [''I noticed '' @ x @ ''.'']"
    and i2: "issues_part [x, y] = [''I noticed a few things: '' @ x @ '', and '' @ y @ ''.'']"
    and i3: "issues_part [x, y, z] =
      [''I noticed a few things: '' @ x @ '', '' @ y @ '', and '' @ z @ ''.'']"
    by (simp_all add: issues_part_def)
  have iN: "issues_part (xs @ [y, z]) =
     [''I noticed a few things: '' @ join '', '' (xs @ [y]) @ '', and '' @ z @ ''.'']"
    by (simp add: issues_part_def last_snoc2 butlast_snoc2 del: append_Cons)
  have s0: "suggestions_part [] = []"
    and s1: "suggestions_part [a] = [''I'd recommend you '' @ a @ ''.'']"
    and s2: "suggestions_part [a, b] = [''I'd recommend you '' @ a @ '' and '' @ b @ ''.'']"
    and s3: "suggestions_part [a, b, c] =
      [''I'd recommend you '' @ a @ '', '' @ b @ '', and '' @ c @ ''.'']"
    by (simp_all add: suggestions_part_def)
  have "xs @ [a, b, c] = (xs @ [a]) @ [b, c]" by simp
  then have sN: "suggestions_part (xs @ [a, b, c]) =
     [''I'd recommend you '' @ join '', '' (xs @ [a, b]) @ '', and '' @ c @ ''.'']"
    using last_snoc2 [of "xs @ [a]" b c] butlast_snoc2 [of "xs @ [a]" b c]
    by (simp add: suggestions_part_def)
  have d: "suggestions_part [a, b] \<noteq> [''I'd recommend you '' @ a @ '', and '' @ b @ ''.'']"
    by (simp add: s2)
  have e: "extract_issues fmt two_issues_report =
      Inr ([''critically low disk space'', ''high memory usage''],
           [''free up disk space immediately'', ''close unused applications''])"
    by (simp add: issue_defs two_issues_report_def)
  have g: "generate_greeting fmt (at_hour 9) two_issues_report =
     Inr ''Good morning! Your system is running well, though there might be room for minor improvements. I noticed a few things: critically low disk space, and high memory usage. I'd recommend you free up disk space immediately and close unused applications.''"
    unfolding generate_greeting_def e
    by (simp add: greeting_parts_def issues_part_def suggestions_part_def closing_part_def
        time_greeting_def health_sentence_def at_hour_def two_issues_report_def missing_report_def
        dict_get_def)
  from i0 i1 i2 i3 iN s0 s1 s2 s3 sN d g show ?thesis by blast
qed

lemma tips_storage_append: "tips_storage r tips = tips @ tips_storage r []"
  by (simp add: tips_storage_def)
lemma tips_memory_append: "tips_memory r tips = tips @ tips_memory r []"
  by (simp add: tips_memory_def)
lemma tips_uptime_append: "tips_uptime r tips = tips @ tips_uptime r []"
  by (simp add: tips_uptime_def)
lemma tips_autostart_append: "tips_autostart r tips = tips @ tips_autostart r []"
  by (simp add: tips_autostart_def)
lemma tips_battery_append: "tips_battery fmt r tips = tips @ tips_battery fmt r []"
  by (simp add: tips_battery_def Let_def split: option.splits)
lemma tips_score_append: "tips_score r tips = tips @ tips_score r []"
  by (simp add: tips_score_def)

lemma all_tips_in_order:
  "all_tips fmt r = tips_storage r [] @ tips_memory r [] @ tips_uptime r [] @
     tips_autostart r [] @ tips_battery fmt r [] @ tips_score r []"
  unfolding all_tips_def
  using tips_score_append [of r "tips_battery fmt r (tips_autostart r (tips_uptime r (tips_memory r (tips_storage r []))))"]
    tips_battery_append [of fmt r "tips_autostart r (tips_uptime r (tips_memory r (tips_storage r [])))"]
    tips_autostart_append [of r "tips_uptime r (tips_memory r (tips_storage r []))"]
    tips_uptime_append [of r "tips_memory r (tips_storage r [])"]
    tips_memory_append [of r "tips_storage r []"]
  by simp

text \<open>
  C9. \<^verbatim>\<open>get_quick_tips\<close> returns at most three tips: the first three of the tips that
  matched, in the order storage, memory, uptime, autostart, battery, score, each test
  giving at most one tip. On a report where all six tests hold it returns the first three.
\<close>

theorem quick_tips_at_most_three:
  "length (get_quick_tips fmt r) \<le> 3 \<and>
   get_quick_tips fmt r =
     take 3 (tips_storage r [] @ tips_memory r [] @ tips_uptime r [] @ tips_autostart r [] @
       tips_battery fmt r [] @ tips_score r []) \<and>
   length (tips_storage r []) \<le> 1 \<and> length (tips_memory r []) \<le> 1 \<and>
   length (tips_uptime r []) \<le> 1 \<and> length (tips_autostart r []) \<le> 1 \<and>
   length (tips_battery fmt r []) \<le> 1 \<and> length (tips_score r []) \<le> 1 \<and>
   length (all_tips fmt busy_report) = 6 \<and>
   get_quick_tips fmt busy_report =
     [''Run disk cleanup to free up space - empty trash, clear browser cache, and remove temporary files.'',
      ''Close unnecessary browser tabs and applications to free up RAM.'',
      ''Restart your computer to apply updates and refresh system processes.'']"
proof -
  have a: "length (get_quick_tips fmt r) \<le> 3" by (simp add: get_quick_tips_def)
  have b: "get_quick_tips fmt r =
     take 3 (tips_storage r [] @ tips_memory r [] @ tips_uptime r [] @ tips_autostart r [] @
       tips_battery fmt r [] @ tips_score r [])"
    by (simp only: get_quick_tips_def all_tips_in_order)
  have c: "length (tips_storage r []) \<le> 1" "length (tips_memory r []) \<le> 1"
    "length (tips_uptime r []) \<le> 1" "length (tips_autostart r []) \<le> 1"
    "length (tips_battery fmt r []) \<le> 1" "length (tips_score r []) \<le> 1"
    by (simp_all add: tips_storage_def tips_memory_def tips_uptime_def tips_autostart_def
        tips_battery_def tips_score_def Let_def split: option.splits)
  have d: "all_tips fmt busy_report =
     [''Run disk cleanup to free up space - empty trash, clear browser cache, and remove temporary files.'',
      ''Close unnecessary browser tabs and applications to free up RAM.'',
      ''Restart your computer to apply updates and refresh system processes.'',
      ''Review your startup programs - disable unnecessary ones to speed up boot time.'',
      ''Battery health is at '' @ fmt 60 @ ''% - avoid extreme temperatures and deep discharges.'',
      ''Run a system maintenance routine: update drivers, scan for malware, and clean temporary files.'']"
    by (simp add: all_tips_def tips_storage_def tips_memory_def tips_uptime_def tips_autostart_def
        tips_battery_def tips_score_def busy_report_def dict_get_def truthy_def Let_def)
  have e: "length (all_tips fmt busy_report) = 6" by (simp add: d)
  have f: "get_quick_tips fmt busy_report =
     [''Run disk cleanup to free up space - empty trash, clear browser cache, and remove temporary files.'',
      ''Close unnecessary browser tabs and applications to free up RAM.'',
      ''Restart your computer to apply updates and refresh system processes.'']"
    by (simp add: get_quick_tips_def d)
  from a b c e f show ?thesis by blast
qed

lemma call_generate_greeting_run:
  "call_generate_greeting fmt r w = generate_greeting fmt (clock w) r"
  by (simp add: call_generate_greeting_def io_bind_def io_return_def datetime_now_def)

lemma greeting_body:
  assumes "extract_issues fmt r = Inr (issues, suggestions)"
  shows "generate_greeting fmt t r =
     Inr (time_greeting t @ '' '' @
          join '' '' (health_sentence (dict_get (health_score r) 100) # issues_part issues @
            suggestions_part suggestions @ closing_part (dict_get (health_score r) 100) issues))"
  by (simp add: generate_greeting_def assms greeting_parts_def Let_def)

text \<open>
  C3, as stated, fails for the greeting. The method's only argument is the report, and it
  reads the clock inside: called on the same report, with the same state of the random
  generator, it returns one text in a world whose clock shows 9 and another in a world
  whose clock shows 13. No hour is among its arguments.
\<close>

theorem clock_counterexample:
  "call_generate_greeting str_float1 missing_report (world_at 9 0 0) =
     Inr ''Good morning! Your system is running exceptionally well today! Everything looks perfect. Keep up the great work maintaining your system!'' \<and>
   call_generate_greeting str_float1 missing_report (world_at 13 0 0) =
     Inr ''Good afternoon! Your system is running exceptionally well today! Everything looks perfect. Keep up the great work maintaining your system!'' \<and>
   call_generate_greeting str_float1 missing_report (world_at 9 0 0) \<noteq>
   call_generate_greeting str_float1 missing_report (world_at 13 0 0)"
  by (simp add: call_generate_greeting_run world_at_def generate_greeting_def issue_defs
      greeting_parts_def issues_part_def suggestions_part_def closing_part_def closing_sentence_def
      time_greeting_def health_sentence_def)

text \<open>
  C3, amended. The score and the extraction of issues are functions of the report alone:
  in any two worlds (clock and random generator) each returns the same result on the same
  report. The greeting reads no randomness and reads of the clock the hour only: in two
  worlds whose clocks show the same hour it returns the same result on the same report.
  On a well-formed report that result is the salutation for the hour of the clock inside
  the call, a space, and a text that is the same in every world; on any other report it
  is the exception of line 629 in every world.
\<close>

theorem calls_depend_on_snapshot_and_hour:
  "call_get_system_health_score r w = call_get_system_health_score r w' \<and>
   call_extract_issues fmt r w = call_extract_issues fmt r w' \<and>
   (hour (clock w) = hour (clock w') \<longrightarrow>
      call_generate_greeting fmt r w = call_generate_greeting fmt r w') \<and>
   (well_formed r \<longrightarrow>
      (\<exists>body. \<forall>v. call_generate_greeting fmt r v =
         Inr ((if 5 \<le> hour (clock v) \<and> hour (clock v) < 12 then ''Good morning!''
               else if 12 \<le> hour (clock v) \<and> hour (clock v) < 17 then ''Good afternoon!''
               else if 17 \<le> hour (clock v) \<and> hour (clock v) < 21 then ''Good evening!''
               else ''Hello!'') @ '' '' @ body))) \<and>
   (\<not> well_formed r \<longrightarrow> (\<forall>v. call_generate_greeting fmt r v = Inl TypeError))"
proof -
  have a: "call_get_system_health_score r w = call_get_system_health_score r w'"
    by (simp add: call_get_system_health_score_def io_return_def)
  have b: "call_extract_issues fmt r w = call_extract_issues fmt r w'"
    by (simp add: call_extract_issues_def io_return_def)
  have c: "call_generate_greeting fmt r w = call_generate_greeting fmt r w'"
    if "hour (clock w) = hour (clock w')"
  proof -
    have "time_greeting (clock w) = time_greeting (clock w')"
      using that by (simp add: time_greeting_def)
    then have parts: "greeting_parts (clock w) sc i s = greeting_parts (clock w') sc i s" for sc i s
      by (simp add: greeting_parts_def)
    show ?thesis
      by (simp add: call_generate_greeting_run generate_greeting_def parts
          split: sum.splits prod.splits)
  qed
  have d: "\<exists>body. \<forall>v. call_generate_greeting fmt r v =
         Inr ((if 5 \<le> hour (clock v) \<and> hour (clock v) < 12 then ''Good morning!''
               else if 12 \<le> hour (clock v) \<and> hour (clock v) < 17 then ''Good afternoon!''
               else if 17 \<le> hour (clock v) \<and> hour (clock v) < 21 then ''Good evening!''
               else ''Hello!'') @ '' '' @ body)"
    if "well_formed r"
  proof -
    from extract_issues_memory [OF that, of fmt] obtain issues suggestions where
      e: "extract_issues fmt r = Inr (issues, suggestions)" by blast
    have "\<forall>v. call_generate_greeting fmt r v =
         Inr ((if 5 \<le> hour (clock v) \<and> hour (clock v) < 12 then ''Good morning!''
               else if 12 \<le> hour (clock v) \<and> hour (clock v) < 17 then ''Good afternoon!''
               else if 17 \<le> hour (clock v) \<and> hour (clock v) < 21 then ''Good evening!''
               else ''Hello!'') @ '' '' @
          join '' '' (health_sentence (dict_get (health_score r) 100) # issues_part issues @
            suggestions_part suggestions @ closing_part (dict_get (health_score r) 100) issues))"
      by (simp add: call_generate_greeting_run greeting_body [OF e] time_greeting_def)
    then show ?thesis by blast
  qed
  have e: "\<forall>v. call_generate_greeting fmt r v = Inl TypeError" if "\<not> well_formed r"
    by (simp add: call_generate_greeting_run generate_greeting_def
        not_well_formed_raises [OF that])
  from a b c d e show ?thesis by blast
qed

theorem calls_depend_on_snapshot_and_hour_witness:
  "hour (clock (world_at 9 0 1)) = hour (clock (world_at 9 30 7)) \<and>
   call_generate_greeting str_float1 busy_report (world_at 9 0 1) =
     call_generate_greeting str_float1 busy_report (world_at 9 30 7) \<and>
   call_get_system_health_score busy_report (world_at 9 0 1) =
     call_get_system_health_score busy_report (world_at 13 30 7) \<and>
   call_extract_issues str_float1 busy_report (world_at 9 0 1) =
     call_extract_issues str_float1 busy_report (world_at 13 30 7) \<and>
   well_formed busy_report \<and>
   (\<exists>body. \<forall>v. call_generate_greeting str_float1 busy_report v =
      Inr ((if 5 \<le> hour (clock v) \<and> hour (clock v) < 12 then ''Good morning!''
            else if 12 \<le> hour (clock v) \<and> hour (clock v) < 17 then ''Good afternoon!''
            else if 17 \<le> hour (clock v) \<and> hour (clock v) < 21 then ''Good evening!''
            else ''Hello!'') @ '' '' @ body)) \<and>
   \<not> well_formed (only_battery battery_no_percent) \<and>
   (\<forall>v. call_generate_greeting str_float1 (only_battery battery_no_percent) v =
       Inl TypeError)"
proof -
  have h: "hour (clock (world_at 9 0 1)) = hour (clock (world_at 9 30 7))"
    by (simp add: world_at_def)
  have w: "well_formed busy_report" by (simp add: well_formed_def busy_report_def)
  have n: "\<not> well_formed (only_battery battery_no_percent)"
    by (simp add: well_formed_def only_battery_def missing_report_def battery_no_percent_def)
  from calls_depend_on_snapshot_and_hour
      [of busy_report "world_at 9 0 1" "world_at 13 30 7" str_float1]
    calls_depend_on_snapshot_and_hour
      [of busy_report "world_at 9 0 1" "world_at 9 30 7" str_float1]
    calls_depend_on_snapshot_and_hour
      [of "only_battery battery_no_percent"
        "world_at 9 0 1" "world_at 9 30 7" str_float1]
    h w n
  show ?thesis by blast
qed

end
